theory Spec2Isabelle
  imports Complex_Main
begin

section \<open>Data model of the quiz page (src/pages/QuizPage.tsx)\<close>

text \<open>
  The quiz page is one React component. Its \<open>useState\<close> cells, its \<open>useRef\<close> cells and
  the outside world it writes to (local storage, the progress endpoint of the server, the
  data channels to the other devices) are the fields of one record, and every function
  of the component is a function from that record to the updated record.
  JavaScript numbers that hold counters, identifiers and indices are integers of
  unbounded size here.

  A function of the component reads the \<open>useState\<close> cells through the closure of the
  render that created it, and that render's values stay what they were however the state
  changes afterwards. A function that reads such a cell therefore takes two sessions:
  \<open>cl\<close>, the session of the render its closure belongs to, from which it reads the
  \<open>useState\<close> cells, and \<open>s\<close>, the session at the time of the call, from which it reads
  the refs and on which its \<open>set\<close> calls, its functional updaters and its writes to the
  outside world act. A handler called from the rendered page belongs to the latest render
  (\<open>cl = s\<close>). The callbacks of the transport and the ping interval are registered by the
  mount effect (\<open>initiateContinuity\<close> and \<open>setInterval\<close> in the first \<open>useEffect\<close>) and
  belong to the render in which that effect ran.
\<close>

record answer =
  answer_text :: string
  correct :: bool

record question =
  question_id :: int
  question_text :: string
  answers :: "answer list"
  multiple :: bool

record quiz =
  quiz_id :: int
  title :: string
  version :: int
  questions :: "question list"

text \<open>One entry \<open>{id, reoccurrences}\<close> of the reoccurrence list.\<close>

record reoccurrence =
  r_id :: int
  r_reoccurrences :: int

record user_settings =
  sync_progress :: bool
  initial_reoccurrences :: int
  wrong_answer_reoccurrences :: int

record progress =
  current_question :: int
  correct_answers_count :: int
  wrong_answers_count :: int
  study_time :: int
  progress_reoccurrences :: "reoccurrence list"

text \<open>
  A \<open>DataConnection\<close> object of the transport library: \<open>conn_ref\<close> is the identity of
  the object (what \<open>conn !== exceptConn\<close> compares), \<open>peer\<close> the identifier of the remote
  device and \<open>conn_open\<close> its \<open>open\<close> flag.
\<close>

record data_connection =
  conn_ref :: nat
  peer :: string
  conn_open :: bool

text \<open>A \<open>Peer\<close> object of the transport library, as far as the page reads it.\<close>

record peer_obj =
  peer_id :: string
  destroyed :: bool

text \<open>The tagged union \<open>PeerMessage\<close>.\<close>

datatype peer_message =
    InitialSync int int int "reoccurrence list"
      \<comment> \<open>startTime, correctAnswersCount, wrongAnswersCount, reoccurrences\<close>
  | QuestionUpdate question "int list"
      \<comment> \<open>question, selectedAnswers\<close>
  | AnswerChecked
  | Ping
  | Pong

record session =
  quiz :: "quiz option"
  userSettings :: user_settings
  reoccurrences :: "reoccurrence list"
  currentQuestion :: "question option"
  selectedAnswers :: "int list"
  questionChecked :: bool
  correctAnswersCount :: int
  wrongAnswersCount :: int
  isQuizFinished :: bool
  studyTime :: int
  startTimeRef :: int
  peerConnections :: "data_connection list"
  isContinuityHost :: bool
  currentQuestionRef :: "question option"
  reoccurrencesRef :: "reoccurrence list"
  wrongAnswersCountRef :: int
  correctAnswersCountRef :: int
  peerRef :: "peer_obj option"
  localProgress :: "progress option"
    \<comment> \<open>the local storage entry \<open>${quizId}_progress\<close>\<close>
  serverPosts :: "progress list"
    \<comment> \<open>the bodies of the POST requests issued to \<open>/quiz-progress/${quizId}/\<close>, oldest first\<close>
  serverDeletes :: nat
    \<comment> \<open>how many DELETE requests were issued to the same endpoint\<close>
  sent :: "(nat \<times> peer_message) list"
    \<comment> \<open>every \<open>conn.send(data)\<close>, oldest first, as (connection, message)\<close>
  peersCreated :: "string option list"
    \<comment> \<open>every \<open>new Peer(...)\<close>, oldest first, with the identifier asked for\<close>
  connectAttempts :: "string list"
    \<comment> \<open>every \<open>connectToPeer(thePeer, peerId)\<close>, oldest first, with the remote identifier\<close>
  armedTimeouts :: "nat list"
    \<comment> \<open>the ping timeouts that are armed, oldest first, each with its connection\<close>

section \<open>Peer utilities\<close>

definition sendToPeer :: "data_connection \<Rightarrow> peer_message \<Rightarrow> session \<Rightarrow> session" where
  "sendToPeer conn data s =
     (if conn_open conn then s\<lparr>sent := sent s @ [(conn_ref conn, data)]\<rparr> else s)"

text \<open>Both loops run over the \<open>peerConnections\<close> of the closure.\<close>

definition sendToAllPeers :: "session \<Rightarrow> peer_message \<Rightarrow> session \<Rightarrow> session" where
  "sendToAllPeers cl data s = fold (\<lambda>conn. sendToPeer conn data) (peerConnections cl) s"

definition sendToAllPeersExcept ::
  "session \<Rightarrow> data_connection option \<Rightarrow> peer_message \<Rightarrow> session \<Rightarrow> session" where
  "sendToAllPeersExcept cl exceptConn data s =
     fold (\<lambda>conn st. if Some (conn_ref conn) \<noteq> map_option conn_ref exceptConn
                      then sendToPeer conn data st else st)
       (peerConnections cl) s"

section \<open>Checking an answer\<close>

text \<open>
  \<open>answers.map((ans, idx) => (ans.correct ? idx : -1)).filter((idx) => idx !== -1)\<close>
\<close>

definition correctIndices :: "question \<Rightarrow> int list" where
  "correctIndices q =
     filter (\<lambda>idx. idx \<noteq> - 1)
       (map (\<lambda>(ans, idx). if correct ans then idx else - 1)
          (zip (answers q) (map int [0 ..< length (answers q)])))"

definition isCorrect :: "question \<Rightarrow> int list \<Rightarrow> bool" where
  "isCorrect q sel =
     (length (correctIndices q) = length sel \<and>
      list_all (\<lambda>ci. ci \<in> set sel) (correctIndices q))"

text \<open>
  \<open>checkAnswer(remote)\<close>. It reads \<open>questionChecked\<close>, \<open>selectedAnswers\<close> and
  \<open>userSettings\<close> from its closure and the current question from the ref; the counters and
  the reoccurrence list are changed by functional updaters, which act on the state at the
  time of the call. The \<open>currentQuestionRef.current?.id\<close> inside the two updaters is the
  identifier of the question that passed the guard on entry.
\<close>

definition checkAnswer :: "session \<Rightarrow> bool \<Rightarrow> session \<Rightarrow> session" where
  "checkAnswer cl remote s =
     (if questionChecked cl then s
      else case currentQuestionRef s of
        None \<Rightarrow> s
      | Some q \<Rightarrow>
          (let s1 =
             (if isCorrect q (selectedAnswers cl) then
                s\<lparr>correctAnswersCount := correctAnswersCount s + 1,
                  reoccurrences :=
                    map (\<lambda>r. if r_id r = question_id q
                              then r\<lparr>r_reoccurrences := max (r_reoccurrences r - 1) 0\<rparr>
                              else r)
                      (reoccurrences s)\<rparr>
              else
                s\<lparr>wrongAnswersCount := wrongAnswersCount s + 1,
                  reoccurrences :=
                    map (\<lambda>r. if r_id r = question_id q
                              then r\<lparr>r_reoccurrences :=
                                     r_reoccurrences r
                                       + wrong_answer_reoccurrences (userSettings cl)\<rparr>
                              else r)
                      (reoccurrences s)\<rparr>);
               s2 = s1\<lparr>questionChecked := True\<rparr>
           in if \<not> remote then sendToAllPeers cl AnswerChecked s2 else s2))"

section \<open>Saving and resetting progress\<close>

text \<open>
  \<open>saveProgress\<close> reads the React state captured by the closure it belongs to and
  writes to the local storage and to the server. The first argument is the session as
  that closure sees it, the second the session being updated; a call from an event handler
  of the current render is \<open>saveProgress s s\<close>.
\<close>

definition saveProgress :: "session \<Rightarrow> session \<Rightarrow> session" where
  "saveProgress cl s =
     (case currentQuestion cl of
        None \<Rightarrow> s
      | Some q \<Rightarrow>
          if isQuizFinished cl then s
          else
            (let progress =
                   \<lparr>current_question = question_id q,
                    correct_answers_count = correctAnswersCount cl,
                    wrong_answers_count = wrongAnswersCount cl,
                    study_time = studyTime cl,
                    progress_reoccurrences = reoccurrences cl\<rparr>;
                 s1 = s\<lparr>localProgress := Some progress\<rparr>
             in if sync_progress (userSettings cl) \<and>
                   (isContinuityHost cl \<or> length (peerConnections cl) = 0)
                then s1\<lparr>serverPosts := serverPosts s1 @ [progress]\<rparr>
                else s1))"

section \<open>Picking the next question\<close>

text \<open>
  \<open>pickRandomQuestion(quizData, recurrencesData)\<close>. The value of \<open>Math.random()\<close>
  that selects the entry is the argument \<open>rnd\<close>, a number in \<open>[0, 1)\<close>; the result of
  sorting the answers with a random comparator is the argument \<open>shuffle\<close> applied to
  them. \<open>cl\<close> is the session as the closure sees it (read by \<open>saveProgress\<close>),
  \<open>s\<close> the session being updated. The result is the updated session and the
  returned question (\<open>None\<close> where the source returns \<open>undefined\<close>).
\<close>

definition pickRandomQuestion ::
  "session \<Rightarrow> quiz \<Rightarrow> reoccurrence list \<Rightarrow> rat \<Rightarrow> (answer list \<Rightarrow> answer list) \<Rightarrow>
   session \<Rightarrow> session \<times> question option" where
  "pickRandomQuestion cl quizData recurrencesData rnd shuffle s =
     (let available = filter (\<lambda>r. r_reoccurrences r > 0) recurrencesData
      in if length available = 0 then
           ((saveProgress cl (s\<lparr>isQuizFinished := True\<rparr>))\<lparr>currentQuestion := None\<rparr>, None)
         else
           (let randId = r_id (available ! nat \<lfloor>rnd * of_nat (length available)\<rfloor>)
            in case find (\<lambda>q. question_id q = randId) (questions quizData) of
                 None \<Rightarrow> (s\<lparr>currentQuestion := None\<rparr>, None)
               | Some questionObj \<Rightarrow>
                   (let sortedAnswers = shuffle (answers questionObj)
                    in (s\<lparr>currentQuestion := Some (questionObj\<lparr>answers := sortedAnswers\<rparr>),
                          isQuizFinished := False\<rparr>,
                        Some (questionObj\<lparr>answers := sortedAnswers\<rparr>)))))"

text \<open>
  The fresh reoccurrence list built at page load when no progress was saved, and again
  by \<open>resetProgress\<close>: \<open>questions.map((q) => ({id: q.id, reoccurrences: initial_reoccurrences}))\<close>.
\<close>

definition freshReoccurrences :: "quiz \<Rightarrow> user_settings \<Rightarrow> reoccurrence list" where
  "freshReoccurrences quizData settings =
     map (\<lambda>q. \<lparr>r_id = question_id q, r_reoccurrences = initial_reoccurrences settings\<rparr>)
       (questions quizData)"

text \<open>
  \<open>resetProgress()\<close>, run from the rendered page, so that its closure is the latest
  render; \<open>now\<close> is the value of \<open>Date.now()\<close>.
\<close>

definition resetProgress ::
  "int \<Rightarrow> rat \<Rightarrow> (answer list \<Rightarrow> answer list) \<Rightarrow> session \<Rightarrow> session" where
  "resetProgress now rnd shuffle s =
     (let s1 = s\<lparr>localProgress := None\<rparr>;
          s2 = (if sync_progress (userSettings s)
                then s1\<lparr>serverDeletes := serverDeletes s1 + 1\<rparr> else s1)
      in case quiz s of
           None \<Rightarrow> s2
         | Some quizData \<Rightarrow>
             (let newReoccurrences = freshReoccurrences quizData (userSettings s);
                  s3 = s2\<lparr>reoccurrences := newReoccurrences,
                          correctAnswersCount := 0,
                          wrongAnswersCount := 0,
                          isQuizFinished := False,
                          studyTime := 0,
                          startTimeRef := now\<rparr>
              in fst (pickRandomQuestion s quizData newReoccurrences rnd shuffle s3)))"

section \<open>Continuity: the host side\<close>

text \<open>
  \<open>initialSyncToPeer\<close> is handed the question, the list, the start time and the counters
  as arguments; the selection it reads itself, from its closure.
\<close>

definition initialSyncToPeer ::
  "session \<Rightarrow> data_connection \<Rightarrow> question option \<Rightarrow> reoccurrence list \<Rightarrow> int \<Rightarrow> int \<Rightarrow>
   int \<Rightarrow> session \<Rightarrow> session" where
  "initialSyncToPeer cl conn currentQuestion' reoccurrences' startTime wrongAnswersCount'
       correctAnswersCount' s =
     (case currentQuestion' of
        None \<Rightarrow> s
      | Some q \<Rightarrow>
          sendToPeer conn (QuestionUpdate q (selectedAnswers cl))
            (sendToPeer conn
               (InitialSync startTime correctAnswersCount' wrongAnswersCount' reoccurrences')
               s))"

text \<open>
  \<open>handlePeerConnectionAsHost(conn)\<close> adds the connection to the list and registers
  its callbacks; \<open>handlePeerConnectionAsHost_open\<close> is the callback it registers for the
  \<open>open\<close> event of the connection, which reads the refs and calls \<open>initialSyncToPeer\<close>
  of the same closure.
\<close>

definition handlePeerConnectionAsHost :: "data_connection \<Rightarrow> session \<Rightarrow> session" where
  "handlePeerConnectionAsHost conn s = s\<lparr>peerConnections := peerConnections s @ [conn]\<rparr>"

definition handlePeerConnectionAsHost_open ::
  "session \<Rightarrow> data_connection \<Rightarrow> session \<Rightarrow> session" where
  "handlePeerConnectionAsHost_open cl conn s =
     (case currentQuestionRef s of
        Some q \<Rightarrow>
          initialSyncToPeer cl conn (Some q) (reoccurrencesRef s) (startTimeRef s)
            (wrongAnswersCountRef s) (correctAnswersCountRef s) s
      | None \<Rightarrow> s)"

definition handlePeerDataAsHost ::
  "session \<Rightarrow> data_connection \<Rightarrow> peer_message \<Rightarrow> session \<Rightarrow> session" where
  "handlePeerDataAsHost cl conn data s =
     (case data of
        QuestionUpdate q sel \<Rightarrow>
          sendToAllPeersExcept cl (Some conn) (QuestionUpdate q sel)
            (s\<lparr>currentQuestion := Some q, questionChecked := False, selectedAnswers := sel\<rparr>)
      | AnswerChecked \<Rightarrow>
          sendToAllPeersExcept cl (Some conn) AnswerChecked (checkAnswer cl True s)
      | Ping \<Rightarrow> sendToPeer conn Pong s
      | _ \<Rightarrow> s)"

section \<open>Continuity: the client side\<close>

text \<open>
  The client answers a ping on \<open>peerConnections[0]\<close> of its closure. With an empty list
  that is \<open>undefined\<close>, and reading \<open>conn.open\<close> in \<open>sendToPeer\<close> throws.
\<close>

datatype js_error = TypeError

definition handlePeerDataAsClient ::
  "session \<Rightarrow> peer_message \<Rightarrow> session \<Rightarrow> js_error + session" where
  "handlePeerDataAsClient cl data s =
     (case data of
        InitialSync startTime correctCount wrongCount recs \<Rightarrow>
          Inr (s\<lparr>startTimeRef := startTime,
                 correctAnswersCount := correctCount,
                 wrongAnswersCount := wrongCount,
                 reoccurrences := recs\<rparr>)
      | QuestionUpdate q sel \<Rightarrow>
          Inr (s\<lparr>currentQuestion := Some q, questionChecked := False, selectedAnswers := sel\<rparr>)
      | AnswerChecked \<Rightarrow> Inr (checkAnswer cl True s)
      | Ping \<Rightarrow>
          (case peerConnections cl of
             [] \<Rightarrow> Inl TypeError
           | conn # _ \<Rightarrow> Inr (sendToPeer conn Pong s))
      | Pong \<Rightarrow> Inr s)"

text \<open>
  The four effects that copy the React state into the refs after a render. The refs are
  synced when they hold what the state holds.
\<close>

definition refsSynced :: "session \<Rightarrow> bool" where
  "refsSynced s =
     (currentQuestionRef s = currentQuestion s \<and>
      reoccurrencesRef s = reoccurrences s \<and>
      wrongAnswersCountRef s = wrongAnswersCount s \<and>
      correctAnswersCountRef s = correctAnswersCount s)"

section \<open>Continuity: negotiation and reconnection\<close>

text \<open>
  The transport library reports what happens to a peer or to a connection through
  callbacks. What it reports is an input of the model: the event a new \<open>Peer\<close> object
  emits (\<open>open\<close>, \<open>error\<close> with the type of the error, or nothing), and whether the
  promise of \<open>connectToPeer\<close> resolves with an open connection or rejects.
\<close>

datatype peer_event = PeerOpen | PeerError string | PeerSilent

datatype connect_result = ConnOpened data_connection | ConnFailed

record transport =
  storedUserId :: "string option"
    \<comment> \<open>the local storage entry \<open>user_id\<close>\<close>
  quizIdParam :: string
  hostPeerEvent :: peer_event
  clientPeerId :: string
  clientPeerEvent :: peer_event
  hostConnect :: connect_result

text \<open>
  \<open>connectToPeer(thePeer, peerId)\<close>: the attempt is logged; when the connection opens
  it joins \<open>peerConnections\<close> and the promise resolves with it (\<open>Some conn\<close>), otherwise
  the promise rejects (\<open>None\<close>).
\<close>

definition connectToPeer ::
  "peer_obj \<Rightarrow> string \<Rightarrow> connect_result \<Rightarrow> session \<Rightarrow> session \<times> data_connection option" where
  "connectToPeer thePeer peerId res s =
     (let s1 = s\<lparr>connectAttempts := connectAttempts s @ [peerId]\<rparr>
      in case res of
           ConnOpened conn \<Rightarrow> (s1\<lparr>peerConnections := peerConnections s1 @ [conn]\<rparr>, Some conn)
         | ConnFailed \<Rightarrow> (s1, None))"

text \<open>\<open>handlePeerConnectionAsClient(conn)\<close> only registers callbacks on the connection.\<close>

definition handlePeerConnectionAsClient :: "data_connection \<Rightarrow> session \<Rightarrow> session" where
  "handlePeerConnectionAsClient conn s = s"

definition initiateContinuity :: "transport \<Rightarrow> session \<Rightarrow> session" where
  "initiateContinuity env s =
     (if peerRef s \<noteq> None then s
      else case storedUserId env of
        None \<Rightarrow> s
      | Some userId \<Rightarrow>
          (let baseId = filter (\<lambda>c. c \<noteq> CHR ''/'') (quizIdParam env @ ''_'' @ userId);
               s1 = s\<lparr>peersCreated := peersCreated s @ [Some baseId]\<rparr>
           in case hostPeerEvent env of
                PeerOpen \<Rightarrow>
                  s1\<lparr>peerRef := Some \<lparr>peer_id = baseId, destroyed = False\<rparr>,
                     isContinuityHost := True\<rparr>
              | PeerError errType \<Rightarrow>
                  if errType = ''unavailable-id'' then
                    (let s2 = s1\<lparr>isContinuityHost := False,
                                   peersCreated := peersCreated s1 @ [None]\<rparr>
                     in case clientPeerEvent env of
                          PeerOpen \<Rightarrow>
                            (let clientPeer = \<lparr>peer_id = clientPeerId env, destroyed = False\<rparr>;
                                 s3 = s2\<lparr>peerRef := Some clientPeer\<rparr>
                             in case connectToPeer clientPeer baseId (hostConnect env) s3 of
                                  (s4, Some conn) \<Rightarrow> handlePeerConnectionAsClient conn s4
                                | (s4, None) \<Rightarrow> s4)
                        | _ \<Rightarrow> s2)
                  else s1
              | PeerSilent \<Rightarrow> s1))"

text \<open>
  \<open>handlePeerClose(conn)\<close>; \<open>res\<close> is the outcome of the reconnection it may attempt,
  \<open>env\<close> what the transport reports to the \<open>initiateContinuity\<close> it may call. It reads
  \<open>isContinuityHost\<close> from its closure and \<open>peerRef\<close> from the ref. The
  condition \<open>!isContinuityHost && peerRef.current && !peerRef.current.destroyed\<close> is the
  branch \<open>Some thePeer\<close> with \<open>\<not> destroyed thePeer\<close>; every other branch is the
  \<open>else\<close> of the source.
\<close>

definition handlePeerClose ::
  "session \<Rightarrow> data_connection \<Rightarrow> connect_result \<Rightarrow> transport \<Rightarrow> session \<Rightarrow> session" where
  "handlePeerClose cl conn res env s =
     (let s1 = s\<lparr>peerConnections :=
                    filter (\<lambda>c. conn_open c \<and> peer c \<noteq> peer conn) (peerConnections s)\<rparr>
      in case (if isContinuityHost cl then None else peerRef s) of
           Some thePeer \<Rightarrow>
             if \<not> destroyed thePeer then
               (case connectToPeer thePeer (peer conn) res s1 of
                  (s2, Some newConn) \<Rightarrow> handlePeerConnectionAsClient newConn s2
                | (s2, None) \<Rightarrow> initiateContinuity env s2)
             else initiateContinuity env s1
         | None \<Rightarrow> initiateContinuity env s1)"

section \<open>Continuity: the ping interval\<close>

text \<open>
  \<open>pingPeers()\<close>, one tick of the interval: for every connection of the closure's list
  that is open, a ping is sent, a timeout is armed, and a data callback is registered on
  the connection that clears this timeout when a pong arrives.
\<close>

definition pingPeers :: "session \<Rightarrow> session \<Rightarrow> session" where
  "pingPeers cl s =
     fold (\<lambda>conn st.
             if conn_open conn then
               (let st1 = sendToPeer conn Ping st
                in st1\<lparr>armedTimeouts := armedTimeouts st1 @ [conn_ref conn]\<rparr>)
             else st)
       (peerConnections cl) s"

text \<open>
  The data callbacks that \<open>pingPeers\<close> has registered on a connection all run on every
  message of that connection, each clearing its own timeout when the message is a pong: a
  pong clears every timeout armed for the connection.
\<close>

definition pingPeers_data :: "data_connection \<Rightarrow> peer_message \<Rightarrow> session \<Rightarrow> session" where
  "pingPeers_data conn message s =
     (if message = Pong
      then s\<lparr>armedTimeouts := filter (\<lambda>r. r \<noteq> conn_ref conn) (armedTimeouts s)\<rparr>
      else s)"

text \<open>
  The timeout callback calls \<open>conn.close()\<close>. The transport then reports the closing of
  the connection through its \<open>close\<close> event, whose callback is \<open>handlePeerClose(conn)\<close>
  of the closure that registered it.
\<close>

definition pingPeers_timeout ::
  "session \<Rightarrow> data_connection \<Rightarrow> connect_result \<Rightarrow> transport \<Rightarrow> session \<Rightarrow> session" where
  "pingPeers_timeout cl conn res env s =
     handlePeerClose cl (conn\<lparr>conn_open := False\<rparr>) res env
       (s\<lparr>armedTimeouts := remove1 (conn_ref conn) (armedTimeouts s)\<rparr>)"

section \<open>The invariant of the reoccurrence list\<close>

definition countsNonNegative :: "reoccurrence list \<Rightarrow> bool" where
  "countsNonNegative recs = list_all (\<lambda>r. 0 \<le> r_reoccurrences r) recs"

section \<open>Concrete sessions\<close>

text \<open>
  The session a freshly mounted page holds (the initial values of its \<open>useState\<close> and
  \<open>useRef\<close> cells, with nothing written yet); \<open>now\<close> is the value of \<open>Date.now()\<close> at
  mount.
\<close>

definition initialSession :: "int \<Rightarrow> session" where
  "initialSession now =
     \<lparr>quiz = None,
      userSettings =
        \<lparr>sync_progress = False, initial_reoccurrences = 1, wrong_answer_reoccurrences = 1\<rparr>,
      reoccurrences = [],
      currentQuestion = None,
      selectedAnswers = [],
      questionChecked = False,
      correctAnswersCount = 0,
      wrongAnswersCount = 0,
      isQuizFinished = False,
      studyTime = 0,
      startTimeRef = now,
      peerConnections = [],
      isContinuityHost = False,
      currentQuestionRef = None,
      reoccurrencesRef = [],
      wrongAnswersCountRef = 0,
      correctAnswersCountRef = 0,
      peerRef = None,
      localProgress = None,
      serverPosts = [],
      serverDeletes = 0,
      sent = [],
      peersCreated = [],
      connectAttempts = [],
      armedTimeouts = []\<rparr>"

text \<open>
  The render in which the mount effect runs when the page is mounted: the first render,
  whose \<open>useState\<close> cells hold their initial values. As a closure only those cells of it
  are read.
\<close>

definition mountRender :: session where
  "mountRender = initialSession 0"

text \<open>A quiz of two questions, and four connections to other devices, the last one closed.\<close>

definition questionOne :: question where
  "questionOne =
     \<lparr>question_id = 1, question_text = ''q1'',
      answers = [\<lparr>answer_text = ''a'', correct = True\<rparr>,
                 \<lparr>answer_text = ''b'', correct = False\<rparr>],
      multiple = False\<rparr>"

definition questionTwo :: question where
  "questionTwo =
     \<lparr>question_id = 2, question_text = ''q2'',
      answers = [\<lparr>answer_text = ''c'', correct = True\<rparr>,
                 \<lparr>answer_text = ''d'', correct = False\<rparr>,
                 \<lparr>answer_text = ''e'', correct = True\<rparr>],
      multiple = True\<rparr>"

definition exampleQuiz :: quiz where
  "exampleQuiz =
     \<lparr>quiz_id = 7, title = ''quiz'', version = 1, questions = [questionOne, questionTwo]\<rparr>"

definition exampleReoccurrences :: "reoccurrence list" where
  "exampleReoccurrences =
     [\<lparr>r_id = 1, r_reoccurrences = 1\<rparr>, \<lparr>r_id = 2, r_reoccurrences = 1\<rparr>]"

definition connA :: data_connection where
  "connA = \<lparr>conn_ref = 1, peer = ''phone'', conn_open = True\<rparr>"

definition connB :: data_connection where
  "connB = \<lparr>conn_ref = 2, peer = ''tablet'', conn_open = True\<rparr>"

definition connC :: data_connection where
  "connC = \<lparr>conn_ref = 3, peer = ''laptop'', conn_open = True\<rparr>"

definition connD :: data_connection where
  "connD = \<lparr>conn_ref = 4, peer = ''desktop'', conn_open = False\<rparr>"

text \<open>
  A host in the middle of the quiz: the first question is current, its first answer is
  selected, nothing is checked yet, and the refs hold what the state holds.
\<close>

definition exampleHost :: session where
  "exampleHost =
     (initialSession 1000)
       \<lparr>quiz := Some exampleQuiz,
        userSettings :=
          \<lparr>sync_progress = True, initial_reoccurrences = 1, wrong_answer_reoccurrences = 2\<rparr>,
        reoccurrences := exampleReoccurrences,
        reoccurrencesRef := exampleReoccurrences,
        currentQuestion := Some questionOne,
        currentQuestionRef := Some questionOne,
        selectedAnswers := [0],
        correctAnswersCount := 4,
        correctAnswersCountRef := 4,
        wrongAnswersCount := 3,
        wrongAnswersCountRef := 3,
        peerConnections := [connA, connB, connC, connD],
        isContinuityHost := True,
        peerRef := Some \<lparr>peer_id = ''7_42'', destroyed = False\<rparr>\<rparr>"

text \<open>The same session with the first answer selected twice.\<close>

definition duplicateSelection :: session where
  "duplicateSelection = exampleHost\<lparr>selectedAnswers := [0, 0]\<rparr>"

text \<open>The same session with the wrong answer selected and a negative penalty configured.\<close>

definition negativePenalty :: session where
  "negativePenalty =
     exampleHost
       \<lparr>selectedAnswers := [1],
        userSettings :=
          \<lparr>sync_progress = True, initial_reoccurrences = 1,
           wrong_answer_reoccurrences = - 3\<rparr>\<rparr>"

text \<open>
  A client whose only connection, the one to the host \<open>7_42\<close>, has just closed, and a
  transport on which the identifier of the host is free again.
\<close>

definition hostConn :: data_connection where
  "hostConn = \<lparr>conn_ref = 5, peer = ''7_42'', conn_open = False\<rparr>"

definition exampleClient :: session where
  "exampleClient =
     (initialSession 2000)
       \<lparr>quiz := Some exampleQuiz,
        userSettings :=
          \<lparr>sync_progress = True, initial_reoccurrences = 1, wrong_answer_reoccurrences = 2\<rparr>,
        peerConnections := [hostConn],
        isContinuityHost := False,
        peerRef := Some \<lparr>peer_id = ''random-id'', destroyed = False\<rparr>\<rparr>"

definition hostGone :: transport where
  "hostGone =
     \<lparr>storedUserId = Some ''42'', quizIdParam = ''7'',
      hostPeerEvent = PeerOpen, clientPeerId = ''other-id'',
      clientPeerEvent = PeerOpen, hostConnect = ConnFailed\<rparr>"

text \<open>
  A fresh client after one \<open>initial_sync\<close> message from the host above, and after a
  second one with other values.
\<close>

definition syncedOnce :: session where
  "syncedOnce =
     (initialSession 2000)
       \<lparr>startTimeRef := 1000, correctAnswersCount := 4, wrongAnswersCount := 3,
        reoccurrences := exampleReoccurrences\<rparr>"

definition syncedTwice :: session where
  "syncedTwice =
     (initialSession 2000)
       \<lparr>startTimeRef := 5000, correctAnswersCount := 9, wrongAnswersCount := 8,
        reoccurrences := []\<rparr>"

section \<open>Auxiliary facts\<close>

lemmas example_defs =
  initialSession_def mountRender_def questionOne_def questionTwo_def exampleQuiz_def
  exampleReoccurrences_def connA_def connB_def connC_def connD_def exampleHost_def

subsection \<open>The indices flagged correct\<close>

lemma zip_enum: "zip xs (map int [0 ..< length xs]) = map (\<lambda>i. (xs ! i, int i)) [0 ..< length xs]"
  by (rule nth_equalityI) auto

lemma correctIndices_alt:
  "correctIndices q = map int (filter (\<lambda>i. correct (answers q ! i)) [0 ..< length (answers q)])"
  unfolding correctIndices_def zip_enum
  by (simp add: filter_map comp_def)

lemma set_correctIndices:
  "set (correctIndices q) = {int i | i. i < length (answers q) \<and> correct (answers q ! i)}"
  by (auto simp: correctIndices_alt)

lemma distinct_correctIndices: "distinct (correctIndices q)"
  by (simp add: correctIndices_alt distinct_map inj_on_def)

lemma isCorrect_set: "isCorrect q sel \<Longrightarrow> set sel = set (correctIndices q)"
proof -
  assume a: "isCorrect q sel"
  have len: "length (correctIndices q) = length sel" and sub: "set (correctIndices q) \<subseteq> set sel"
    using a by (auto simp: isCorrect_def list_all_iff)
  have "card (set sel) \<le> length sel" by (rule card_length)
  also have "\<dots> = card (set (correctIndices q))"
    using len distinct_correctIndices [of q] by (simp add: distinct_card)
  finally have "card (set sel) \<le> card (set (correctIndices q))" .
  with sub show ?thesis
    by (metis List.finite_set card_seteq)
qed

lemma isCorrect_iff:
  "distinct sel \<Longrightarrow> isCorrect q sel \<longleftrightarrow> set sel = set (correctIndices q)"
proof
  assume "isCorrect q sel" then show "set sel = set (correctIndices q)" by (rule isCorrect_set)
next
  assume d: "distinct sel" and e: "set sel = set (correctIndices q)"
  have "length sel = card (set sel)" using d by (simp add: distinct_card)
  also have "\<dots> = length (correctIndices q)"
    using e distinct_correctIndices [of q] by (simp add: distinct_card)
  finally show "isCorrect q sel" using e by (simp add: isCorrect_def list_all_iff)
qed

subsection \<open>What the send functions append\<close>

lemma fold_sendToPeer:
  "fold (\<lambda>conn. sendToPeer conn data) cs st =
     st\<lparr>sent := sent st @ map (\<lambda>c. (conn_ref c, data)) (filter conn_open cs)\<rparr>"
  by (induction cs arbitrary: st) (simp_all add: sendToPeer_def)

lemma sendToAllPeers_eq:
  "sendToAllPeers cl data s =
     s\<lparr>sent := sent s @ map (\<lambda>c. (conn_ref c, data)) (filter conn_open (peerConnections cl))\<rparr>"
  by (simp add: sendToAllPeers_def fold_sendToPeer)

lemma fold_sendExcept:
  "fold (\<lambda>conn st. if conn_ref conn \<noteq> k then sendToPeer conn data st else st) cs st =
     st\<lparr>sent := sent st @
           map (\<lambda>c. (conn_ref c, data)) (filter (\<lambda>c. conn_ref c \<noteq> k \<and> conn_open c) cs)\<rparr>"
  by (induction cs arbitrary: st) (simp_all add: sendToPeer_def)

lemma sendToAllPeersExcept_eq:
  "sendToAllPeersExcept cl (Some A) data s =
     s\<lparr>sent := sent s @
           map (\<lambda>c. (conn_ref c, data))
             (filter (\<lambda>c. conn_ref c \<noteq> conn_ref A \<and> conn_open c) (peerConnections cl))\<rparr>"
  by (simp add: sendToAllPeersExcept_def fold_sendExcept)

subsection \<open>The branches of \<open>checkAnswer\<close>\<close>

lemma checkAnswer_checked: "questionChecked cl \<Longrightarrow> checkAnswer cl remote s = s"
  by (simp add: checkAnswer_def)

lemma checkAnswer_no_question: "currentQuestionRef s = None \<Longrightarrow> checkAnswer cl remote s = s"
  by (simp add: checkAnswer_def)

lemma checkAnswer_sets_checked:
  "\<not> questionChecked cl \<Longrightarrow> currentQuestionRef s = Some q \<Longrightarrow>
   questionChecked (checkAnswer cl remote s)"
  by (simp add: checkAnswer_def Let_def sendToAllPeers_eq)

lemma checkAnswer_correct:
  assumes "\<not> questionChecked cl" "currentQuestionRef s = Some q"
    "isCorrect q (selectedAnswers cl)"
  shows "correctAnswersCount (checkAnswer cl remote s) = correctAnswersCount s + 1"
    and "wrongAnswersCount (checkAnswer cl remote s) = wrongAnswersCount s"
    and "reoccurrences (checkAnswer cl remote s) =
           map (\<lambda>r. if r_id r = question_id q
                     then r\<lparr>r_reoccurrences := max (r_reoccurrences r - 1) 0\<rparr> else r)
             (reoccurrences s)"
  using assms by (simp_all add: checkAnswer_def Let_def sendToAllPeers_eq)

lemma checkAnswer_wrong:
  assumes "\<not> questionChecked cl" "currentQuestionRef s = Some q"
    "\<not> isCorrect q (selectedAnswers cl)"
  shows "correctAnswersCount (checkAnswer cl remote s) = correctAnswersCount s"
    and "wrongAnswersCount (checkAnswer cl remote s) = wrongAnswersCount s + 1"
    and "reoccurrences (checkAnswer cl remote s) =
           map (\<lambda>r. if r_id r = question_id q
                     then r\<lparr>r_reoccurrences :=
                            r_reoccurrences r + wrong_answer_reoccurrences (userSettings cl)\<rparr>
                     else r)
             (reoccurrences s)"
  using assms by (simp_all add: checkAnswer_def Let_def sendToAllPeers_eq)

text \<open>
  A closure whose selection is empty sees a wrong answer whenever an answer of the
  question is flagged correct.
\<close>

lemma isCorrect_empty_selection: "correctIndices q \<noteq> [] \<Longrightarrow> \<not> isCorrect q []"
  by (simp add: isCorrect_def)

text \<open>
  What a check from the rendered page does, where the closure is the latest render and
  the selection holds no index twice: the question counts as correct exactly when the set
  of selected indices is the set of indices flagged correct.
\<close>

lemma checkAnswer_latest_render:
  assumes unch: "\<not> questionChecked s"
    and cur: "currentQuestionRef s = Some q"
    and dist: "distinct (selectedAnswers s)"
  shows
    "(set (selectedAnswers s) = {int i | i. i < length (answers q) \<and> correct (answers q ! i)} \<longrightarrow>
        correctAnswersCount (checkAnswer s remote s) = correctAnswersCount s + 1 \<and>
        wrongAnswersCount (checkAnswer s remote s) = wrongAnswersCount s \<and>
        reoccurrences (checkAnswer s remote s) =
          map (\<lambda>r. if r_id r = question_id q
                    then r\<lparr>r_reoccurrences := max (r_reoccurrences r - 1) 0\<rparr> else r)
            (reoccurrences s)) \<and>
     (set (selectedAnswers s) \<noteq> {int i | i. i < length (answers q) \<and> correct (answers q ! i)} \<longrightarrow>
        correctAnswersCount (checkAnswer s remote s) = correctAnswersCount s \<and>
        wrongAnswersCount (checkAnswer s remote s) = wrongAnswersCount s + 1 \<and>
        reoccurrences (checkAnswer s remote s) =
          map (\<lambda>r. if r_id r = question_id q
                    then r\<lparr>r_reoccurrences :=
                           r_reoccurrences r + wrong_answer_reoccurrences (userSettings s)\<rparr>
                    else r)
            (reoccurrences s)) \<and>
     questionChecked (checkAnswer s remote s)"
proof -
  have iff: "isCorrect q (selectedAnswers s) \<longleftrightarrow>
      set (selectedAnswers s) = {int i | i. i < length (answers q) \<and> correct (answers q ! i)}"
    using isCorrect_iff [OF dist, of q] by (simp add: set_correctIndices)
  show ?thesis
  proof (cases "isCorrect q (selectedAnswers s)")
    case True
    with iff checkAnswer_correct [OF unch cur True, of remote]
      checkAnswer_sets_checked [OF unch cur, of remote]
    show ?thesis by simp
  next
    case False
    with iff checkAnswer_wrong [OF unch cur False, of remote]
      checkAnswer_sets_checked [OF unch cur, of remote]
    show ?thesis by simp
  qed
qed

section \<open>Claims\<close>

subsection \<open>C1: the answer-evaluation rule\<close>

text \<open>
  C1, as the code behaves on a remote-triggered check. \<open>checkAnswer(true)\<close> is called only
  by the data callbacks of the transport, whose closure is the render of the mount effect:
  there nothing is checked and the selection is empty. For such a closure and a current
  question with an answer flagged correct, the check counts a wrong answer whatever the
  device has selected: the wrong counter grows by one, the correct counter stays, and the
  entries of the question have the penalty of the closure's settings added, not the one
  configured on the device.
\<close>

theorem remote_check_ignores_selection:
  assumes unch: "\<not> questionChecked cl"
    and empty: "selectedAnswers cl = []"
    and cur: "currentQuestionRef s = Some q"
    and flagged: "correctIndices q \<noteq> []"
  shows "correctAnswersCount (checkAnswer cl True s) = correctAnswersCount s \<and>
         wrongAnswersCount (checkAnswer cl True s) = wrongAnswersCount s + 1 \<and>
         reoccurrences (checkAnswer cl True s) =
           map (\<lambda>r. if r_id r = question_id q
                     then r\<lparr>r_reoccurrences :=
                            r_reoccurrences r + wrong_answer_reoccurrences (userSettings cl)\<rparr>
                     else r)
             (reoccurrences s)"
proof -
  have wrong: "\<not> isCorrect q (selectedAnswers cl)"
    using isCorrect_empty_selection [OF flagged] empty by simp
  from checkAnswer_wrong [OF unch cur wrong, of True] show ?thesis by simp
qed

text \<open>
  The device of the example has selected index 0 of the first question, the one flagged
  correct, and has a penalty of 2 configured. An \<open>answer_checked\<close> message makes it count a
  wrong answer (3 to 4, the correct counter staying at 4) and add the default penalty 1 to
  the count of question 1.
\<close>

theorem remote_check_ignores_selection_witness:
  "\<not> questionChecked mountRender \<and> selectedAnswers mountRender = [] \<and>
   currentQuestionRef exampleHost = Some questionOne \<and>
   correctIndices questionOne = [0] \<and> selectedAnswers exampleHost = [0] \<and>
   wrong_answer_reoccurrences (userSettings exampleHost) = 2 \<and>
   correctAnswersCount exampleHost = 4 \<and> wrongAnswersCount exampleHost = 3 \<and>
   correctAnswersCount (checkAnswer mountRender True exampleHost) = 4 \<and>
   wrongAnswersCount (checkAnswer mountRender True exampleHost) = 4 \<and>
   reoccurrences (checkAnswer mountRender True exampleHost)
     = [\<lparr>r_id = 1, r_reoccurrences = 2\<rparr>, \<lparr>r_id = 2, r_reoccurrences = 1\<rparr>]"
proof -
  have h1: "\<not> questionChecked mountRender" and h2: "selectedAnswers mountRender = []"
    and h3: "currentQuestionRef exampleHost = Some questionOne"
    by (simp_all add: example_defs)
  have ci: "correctIndices questionOne = [0]"
    by (simp add: correctIndices_def example_defs)
  then have h4: "correctIndices questionOne \<noteq> []" by simp
  have v: "selectedAnswers exampleHost = [0]"
    "wrong_answer_reoccurrences (userSettings exampleHost) = 2"
    "correctAnswersCount exampleHost = 4" "wrongAnswersCount exampleHost = 3"
    "reoccurrences exampleHost = exampleReoccurrences" "question_id questionOne = 1"
    "wrong_answer_reoccurrences (userSettings mountRender) = 1"
    by (simp_all add: example_defs)
  from remote_check_ignores_selection [OF h1 h2 h3 h4] h1 h2 h3 ci
  show ?thesis by (simp add: v exampleReoccurrences_def)
qed

text \<open>
  A check from the rendered page has a second way to miss the rule: it compares the
  length of the selection with the number of correct indices, so the selection \<open>[0, 0]\<close>,
  whose set of indices is the one flagged correct, \<open>{0}\<close>, is counted wrong.
\<close>

lemma checkAnswer_duplicate_selection:
  "\<not> questionChecked duplicateSelection \<and>
   currentQuestionRef duplicateSelection = Some questionOne \<and>
   set (selectedAnswers duplicateSelection) = {0} \<and>
   set (correctIndices questionOne) = {0} \<and>
   correctAnswersCount (checkAnswer duplicateSelection False duplicateSelection)
     = correctAnswersCount duplicateSelection \<and>
   wrongAnswersCount (checkAnswer duplicateSelection False duplicateSelection)
     = wrongAnswersCount duplicateSelection + 1 \<and>
   reoccurrences (checkAnswer duplicateSelection False duplicateSelection)
     = [\<lparr>r_id = 1, r_reoccurrences = 3\<rparr>, \<lparr>r_id = 2, r_reoccurrences = 1\<rparr>]"
  by (simp add: checkAnswer_def isCorrect_def correctIndices_def sendToAllPeers_eq
      duplicateSelection_def example_defs)

subsection \<open>C6: checking twice\<close>

text \<open>
  C6, as the code behaves on a remote-triggered check. The guard of \<open>checkAnswer\<close> reads
  \<open>questionChecked\<close> from the closure. A call whose closure has the flag set changes
  nothing; but the closure of the transport callbacks never has it set, so an
  \<open>answer_checked\<close> message that arrives when the current question is already checked is
  counted again: one of the two counters grows by one.
\<close>

theorem remote_check_counts_again:
  assumes unch: "\<not> questionChecked cl"
    and cur: "currentQuestionRef s = Some q"
    and checked: "questionChecked s"
  shows "correctAnswersCount (checkAnswer cl True s) + wrongAnswersCount (checkAnswer cl True s)
           = correctAnswersCount s + wrongAnswersCount s + 1 \<and>
         checkAnswer cl True s \<noteq> s"
proof -
  have sum: "correctAnswersCount (checkAnswer cl True s) + wrongAnswersCount (checkAnswer cl True s)
           = correctAnswersCount s + wrongAnswersCount s + 1"
  proof (cases "isCorrect q (selectedAnswers cl)")
    case True
    from checkAnswer_correct [OF unch cur True, of True] show ?thesis by simp
  next
    case False
    from checkAnswer_wrong [OF unch cur False, of True] show ?thesis by simp
  qed
  then have "checkAnswer cl True s \<noteq> s" by auto
  with sum show ?thesis by simp
qed

text \<open>
  The host of the example checks its correct answer from the page (counters 5 and 3,
  counts 0 and 1) and then receives an \<open>answer_checked\<close> message: the check runs again,
  on the empty selection of the closure, and leaves counters 5 and 4 and counts 1 and 1.
  From the page, a second check changes nothing.
\<close>

theorem remote_check_counts_again_witness:
  "\<not> questionChecked mountRender \<and>
   questionChecked (checkAnswer exampleHost False exampleHost) \<and>
   correctAnswersCount (checkAnswer exampleHost False exampleHost) = 5 \<and>
   wrongAnswersCount (checkAnswer exampleHost False exampleHost) = 3 \<and>
   reoccurrences (checkAnswer exampleHost False exampleHost)
     = [\<lparr>r_id = 1, r_reoccurrences = 0\<rparr>, \<lparr>r_id = 2, r_reoccurrences = 1\<rparr>] \<and>
   correctAnswersCount (checkAnswer mountRender True (checkAnswer exampleHost False exampleHost)) = 5 \<and>
   wrongAnswersCount (checkAnswer mountRender True (checkAnswer exampleHost False exampleHost)) = 4 \<and>
   reoccurrences (checkAnswer mountRender True (checkAnswer exampleHost False exampleHost))
     = [\<lparr>r_id = 1, r_reoccurrences = 1\<rparr>, \<lparr>r_id = 2, r_reoccurrences = 1\<rparr>] \<and>
   checkAnswer (checkAnswer exampleHost False exampleHost) False
       (checkAnswer exampleHost False exampleHost)
     = checkAnswer exampleHost False exampleHost"
proof -
  let ?s = "checkAnswer exampleHost False exampleHost"
  have h1: "\<not> questionChecked mountRender" by (simp add: example_defs)
  have first: "questionChecked ?s" "correctAnswersCount ?s = 5" "wrongAnswersCount ?s = 3"
    "reoccurrences ?s = [\<lparr>r_id = 1, r_reoccurrences = 0\<rparr>, \<lparr>r_id = 2, r_reoccurrences = 1\<rparr>]"
    "currentQuestionRef ?s = Some questionOne"
    by (simp_all add: checkAnswer_def isCorrect_def correctIndices_def sendToAllPeers_eq
        example_defs)
  have wrong: "\<not> isCorrect questionOne (selectedAnswers mountRender)"
    by (simp add: isCorrect_def correctIndices_def example_defs)
  have v: "question_id questionOne = 1" "wrong_answer_reoccurrences (userSettings mountRender) = 1"
    by (simp_all add: example_defs)
  have recs: "reoccurrences (checkAnswer mountRender True ?s)
     = [\<lparr>r_id = 1, r_reoccurrences = 1\<rparr>, \<lparr>r_id = 2, r_reoccurrences = 1\<rparr>]"
    and same: "correctAnswersCount (checkAnswer mountRender True ?s) = 5"
    using checkAnswer_wrong [OF h1 first(5) wrong, of True] by (simp_all add: first v)
  from remote_check_counts_again [OF h1 first(5) first(1)] same
  have "wrongAnswersCount (checkAnswer mountRender True ?s) = 4" by (simp add: first)
  moreover have "checkAnswer ?s False ?s = ?s" using first(1) by (rule checkAnswer_checked)
  ultimately show ?thesis using h1 first recs same by simp
qed

subsection \<open>C5: only an eligible question is picked\<close>

lemma saveProgress_fields:
  "reoccurrences (saveProgress cl s) = reoccurrences s"
  "isQuizFinished (saveProgress cl s) = isQuizFinished s"
  "currentQuestion (saveProgress cl s) = currentQuestion s"
  by (simp_all add: saveProgress_def Let_def split: option.split)

lemma pickRandomQuestion_reoccurrences:
  "reoccurrences (fst (pickRandomQuestion cl quizData recs rnd shuffle s)) = reoccurrences s"
  by (simp add: pickRandomQuestion_def Let_def saveProgress_fields split: option.split)

text \<open>The index \<open>Math.floor(Math.random() * available.length)\<close> is within the array.\<close>

lemma random_index_in_range:
  assumes "0 \<le> rnd" "rnd < 1" "0 < n"
  shows "nat \<lfloor>rnd * of_nat n\<rfloor> < n"
proof -
  have "rnd * of_nat n < of_nat n" using assms by simp
  then have "\<lfloor>rnd * of_nat n\<rfloor> < int n" by (simp add: floor_less_iff)
  moreover have "0 \<le> \<lfloor>rnd * of_nat n\<rfloor>" using assms by simp
  ultimately show ?thesis by linarith
qed

text \<open>
  C5. Whatever \<open>Math.random()\<close> gives within \<open>[0, 1)\<close>, the question that
  \<open>pickRandomQuestion\<close> returns is the one it sets as current, it is a question of the
  quiz (with its answers reordered) whose identifier has an entry with a count above zero
  in the reoccurrence list passed in, and the quiz is then marked unfinished. When no
  entry of that list has a count above zero, the quiz is marked finished, the current
  question is set to null and nothing is returned.
\<close>

theorem pickRandomQuestion_eligible:
  assumes lo: "0 \<le> rnd" and hi: "rnd < 1"
    and pick: "pickRandomQuestion cl quizData recs rnd shuffle s = (s', res)"
  shows "currentQuestion s' = res \<and>
         (\<forall>q. res = Some q \<longrightarrow>
            (\<exists>r \<in> set recs. r_id r = question_id q \<and> 0 < r_reoccurrences r) \<and>
            (\<exists>q0 \<in> set (questions quizData). q = q0\<lparr>answers := shuffle (answers q0)\<rparr>) \<and>
            \<not> isQuizFinished s') \<and>
         ((\<forall>r \<in> set recs. \<not> 0 < r_reoccurrences r) \<longrightarrow>
            isQuizFinished s' \<and> currentQuestion s' = None \<and> res = None)"
proof (cases "filter (\<lambda>r. 0 < r_reoccurrences r) recs = []")
  case True
  then have none: "\<forall>r \<in> set recs. \<not> 0 < r_reoccurrences r"
    by (simp add: filter_empty_conv)
  from True pick show ?thesis
    by (auto simp: pickRandomQuestion_def saveProgress_fields)
next
  case False
  define available where "available = filter (\<lambda>r. 0 < r_reoccurrences r) recs"
  define chosen where "chosen = available ! nat \<lfloor>rnd * of_nat (length available)\<rfloor>"
  from False have "0 < length available" by (simp add: available_def)
  then have "chosen \<in> set available"
    unfolding chosen_def using random_index_in_range [OF lo hi] by simp
  then have chosen: "chosen \<in> set recs" "0 < r_reoccurrences chosen"
    by (simp_all add: available_def)
  from False have some: "\<not> (\<forall>r \<in> set recs. \<not> 0 < r_reoccurrences r)"
    by (simp add: filter_empty_conv)
  show ?thesis
  proof (cases "find (\<lambda>q. question_id q = r_id chosen) (questions quizData)")
    case None
    with False pick some show ?thesis
      by (auto simp: pickRandomQuestion_def Let_def chosen_def available_def)
  next
    case (Some q0)
    then have q0: "q0 \<in> set (questions quizData)" "question_id q0 = r_id chosen"
      by (auto simp: find_Some_iff)
    from Some False pick
    have res: "res = Some (q0\<lparr>answers := shuffle (answers q0)\<rparr>)"
      and s': "s' = s\<lparr>currentQuestion := Some (q0\<lparr>answers := shuffle (answers q0)\<rparr>),
                      isQuizFinished := False\<rparr>"
      by (auto simp: pickRandomQuestion_def Let_def chosen_def available_def)
    from res s' q0 chosen some show ?thesis by auto
  qed
qed


text \<open>
  With both counts at one and \<open>Math.random() = 1/2\<close> the second entry is chosen and
  question 2 becomes current; with both counts at zero the quiz is finished.
\<close>

theorem pickRandomQuestion_eligible_witness:
  "(0::rat) \<le> 1 / 2 \<and> (1 / 2 :: rat) < 1 \<and>
   snd (pickRandomQuestion exampleHost exampleQuiz exampleReoccurrences (1 / 2) rev exampleHost)
     = Some (questionTwo\<lparr>answers := rev (answers questionTwo)\<rparr>) \<and>
   currentQuestion
     (fst (pickRandomQuestion exampleHost exampleQuiz exampleReoccurrences (1 / 2) rev exampleHost))
     = Some (questionTwo\<lparr>answers := rev (answers questionTwo)\<rparr>) \<and>
   \<not> isQuizFinished
     (fst (pickRandomQuestion exampleHost exampleQuiz exampleReoccurrences (1 / 2) rev exampleHost)) \<and>
   (\<exists>r \<in> set exampleReoccurrences. r_id r = question_id questionTwo \<and> 0 < r_reoccurrences r) \<and>
   snd (pickRandomQuestion exampleHost exampleQuiz
          [\<lparr>r_id = 1, r_reoccurrences = 0\<rparr>, \<lparr>r_id = 2, r_reoccurrences = 0\<rparr>] (1 / 2) rev exampleHost)
     = None \<and>
   isQuizFinished
     (fst (pickRandomQuestion exampleHost exampleQuiz
          [\<lparr>r_id = 1, r_reoccurrences = 0\<rparr>, \<lparr>r_id = 2, r_reoccurrences = 0\<rparr>] (1 / 2) rev exampleHost)) \<and>
   currentQuestion
     (fst (pickRandomQuestion exampleHost exampleQuiz
          [\<lparr>r_id = 1, r_reoccurrences = 0\<rparr>, \<lparr>r_id = 2, r_reoccurrences = 0\<rparr>] (1 / 2) rev exampleHost))
     = None"
proof -
  let ?p = "pickRandomQuestion exampleHost exampleQuiz exampleReoccurrences (1 / 2) rev exampleHost"
  let ?done = "[\<lparr>r_id = 1, r_reoccurrences = 0\<rparr>, \<lparr>r_id = 2, r_reoccurrences = 0\<rparr>]"
  let ?d = "pickRandomQuestion exampleHost exampleQuiz ?done (1 / 2) rev exampleHost"
  have lo: "(0::rat) \<le> 1 / 2" and hi: "(1 / 2 :: rat) < 1" by simp_all
  have res: "snd ?p = Some (questionTwo\<lparr>answers := rev (answers questionTwo)\<rparr>)"
    by (simp add: pickRandomQuestion_def Let_def example_defs)
  have p: "?p = (fst ?p, snd ?p)" and d: "?d = (fst ?d, snd ?d)" by simp_all
  have all0: "\<forall>r \<in> set ?done. \<not> 0 < r_reoccurrences r" by simp
  from pickRandomQuestion_eligible [OF lo hi p] res
  have picked: "currentQuestion (fst ?p) = Some (questionTwo\<lparr>answers := rev (answers questionTwo)\<rparr>) \<and>
     \<not> isQuizFinished (fst ?p) \<and>
     (\<exists>r \<in> set exampleReoccurrences.
        r_id r = question_id (questionTwo\<lparr>answers := rev (answers questionTwo)\<rparr>) \<and>
        0 < r_reoccurrences r)"
    by simp
  from pickRandomQuestion_eligible [OF lo hi d] all0
  have finished: "isQuizFinished (fst ?d) \<and> currentQuestion (fst ?d) = None \<and> snd ?d = None"
    by blast
  from picked finished res lo hi show ?thesis by simp
qed

subsection \<open>C9: reoccurrence counts stay non-negative\<close>

text \<open>
  C9, as the code has it. On a session whose reoccurrence counts are all non-negative
  and whose configured \<open>wrong_answer_reoccurrences\<close> and \<open>initial_reoccurrences\<close> are
  non-negative, checking an answer (correctly or not) and resetting the progress leave
  every count non-negative, and so is every count of a fresh reoccurrence list built from
  settings with a non-negative \<open>initial_reoccurrences\<close>. The penalty is the one of the
  settings that the closure of the check holds: the device's own for a check from the
  page (\<open>cl = s\<close>), the default 1 for a check triggered by a message.
\<close>

theorem reoccurrences_stay_non_negative:
  assumes inv: "countsNonNegative (reoccurrences s)"
    and penalty: "0 \<le> wrong_answer_reoccurrences (userSettings cl)"
    and initial: "0 \<le> initial_reoccurrences settings"
    and initial': "0 \<le> initial_reoccurrences (userSettings s)"
  shows "countsNonNegative (reoccurrences (checkAnswer cl remote s)) \<and>
         countsNonNegative (reoccurrences (resetProgress now rnd shuffle s)) \<and>
         countsNonNegative (freshReoccurrences quizData settings)"
proof -
  have fresh: "countsNonNegative (freshReoccurrences qd st)" if "0 \<le> initial_reoccurrences st"
    for qd st
    using that by (simp add: countsNonNegative_def freshReoccurrences_def list_all_iff)
  have check: "countsNonNegative (reoccurrences (checkAnswer cl remote s))"
    using inv penalty
    by (auto simp: countsNonNegative_def checkAnswer_def Let_def sendToAllPeers_eq list_all_iff
        split: option.split)
  have reset: "countsNonNegative (reoccurrences (resetProgress now rnd shuffle s))"
    using inv fresh [OF initial']
    by (simp add: resetProgress_def Let_def pickRandomQuestion_reoccurrences split: option.split)
  from check reset fresh [OF initial] show ?thesis by simp
qed

text \<open>
  The host of the example has counts of one and settings of one and two: a check from
  the page, a check triggered by a message and a reset keep the counts non-negative.
\<close>

theorem reoccurrences_stay_non_negative_witness:
  "countsNonNegative (reoccurrences exampleHost) \<and>
   0 \<le> wrong_answer_reoccurrences (userSettings exampleHost) \<and>
   0 \<le> wrong_answer_reoccurrences (userSettings mountRender) \<and>
   0 \<le> initial_reoccurrences (userSettings exampleHost) \<and>
   countsNonNegative (reoccurrences (checkAnswer exampleHost False exampleHost)) \<and>
   countsNonNegative (reoccurrences (checkAnswer mountRender True exampleHost)) \<and>
   countsNonNegative (reoccurrences (resetProgress 3000 0 rev exampleHost)) \<and>
   countsNonNegative (freshReoccurrences exampleQuiz (userSettings exampleHost))"
proof -
  have h1: "countsNonNegative (reoccurrences exampleHost)"
    by (simp add: countsNonNegative_def example_defs)
  have h2: "0 \<le> wrong_answer_reoccurrences (userSettings exampleHost)"
    and h2': "0 \<le> wrong_answer_reoccurrences (userSettings mountRender)"
    by (simp_all add: example_defs)
  have h3: "0 \<le> initial_reoccurrences (userSettings exampleHost)"
    by (simp add: example_defs)
  from reoccurrences_stay_non_negative [OF h1 h2 h3 h3, of False 3000 0 rev exampleQuiz]
    reoccurrences_stay_non_negative [OF h1 h2' h3 h3, of True 3000 0 rev exampleQuiz]
    h1 h2 h2' h3
  show ?thesis by simp
qed

text \<open>
  C9 without the proviso on the settings fails: with a penalty of \<open>-3\<close> configured, a
  wrong answer to question 1 takes its count from 1 to \<open>-2\<close>, and with an initial count
  of \<open>-1\<close> configured every count of a fresh list is \<open>-1\<close>.
\<close>

theorem negative_settings_counterexample:
  "countsNonNegative (reoccurrences negativePenalty) \<and>
   \<not> questionChecked negativePenalty \<and>
   reoccurrences (checkAnswer negativePenalty False negativePenalty)
     = [\<lparr>r_id = 1, r_reoccurrences = - 2\<rparr>, \<lparr>r_id = 2, r_reoccurrences = 1\<rparr>] \<and>
   \<not> countsNonNegative (reoccurrences (checkAnswer negativePenalty False negativePenalty)) \<and>
   \<not> countsNonNegative
       (freshReoccurrences exampleQuiz
          \<lparr>sync_progress = True, initial_reoccurrences = - 1,
           wrong_answer_reoccurrences = 2\<rparr>)"
  by (simp add: countsNonNegative_def checkAnswer_def isCorrect_def correctIndices_def
      sendToAllPeers_eq freshReoccurrences_def negativePenalty_def example_defs)

subsection \<open>C10: when progress reaches the server\<close>

text \<open>
  C10. \<open>saveProgress\<close> issues a POST to the server only when sync is enabled and the
  device is the continuity host or has no open peer connection (the code asks for an empty
  connection list), and then only with a current question in an unfinished quiz. A device
  that is not the host and has a connection in its list issues no POST; with a current
  question in an unfinished quiz all it does is write the local storage entry. Without a
  current question, or in a finished quiz, \<open>saveProgress\<close> changes nothing.
\<close>

theorem saveProgress_server_gate:
  "(serverPosts (saveProgress cl s) \<noteq> serverPosts s \<longrightarrow>
      sync_progress (userSettings cl) \<and>
      (isContinuityHost cl \<or> filter conn_open (peerConnections cl) = []) \<and>
      currentQuestion cl \<noteq> None \<and> \<not> isQuizFinished cl) \<and>
   (\<not> isContinuityHost cl \<and> peerConnections cl \<noteq> [] \<longrightarrow>
      serverPosts (saveProgress cl s) = serverPosts s \<and>
      (\<forall>q. currentQuestion cl = Some q \<and> \<not> isQuizFinished cl \<longrightarrow>
         saveProgress cl s =
           s\<lparr>localProgress :=
                Some \<lparr>current_question = question_id q,
                      correct_answers_count = correctAnswersCount cl,
                      wrong_answers_count = wrongAnswersCount cl,
                      study_time = studyTime cl,
                      progress_reoccurrences = reoccurrences cl\<rparr>\<rparr>)) \<and>
   (currentQuestion cl = None \<or> isQuizFinished cl \<longrightarrow> saveProgress cl s = s)"
  by (auto simp: saveProgress_def Let_def split: option.split)

text \<open>
  The host of the example posts its progress; the same session on a device that is not
  the host writes the local storage only; in a finished quiz nothing is written.
\<close>

theorem saveProgress_server_gate_witness:
  "\<not> isContinuityHost (exampleHost\<lparr>isContinuityHost := False\<rparr>) \<and>
   peerConnections (exampleHost\<lparr>isContinuityHost := False\<rparr>) \<noteq> [] \<and>
   currentQuestion (exampleHost\<lparr>isContinuityHost := False\<rparr>) = Some questionOne \<and>
   serverPosts
     (saveProgress (exampleHost\<lparr>isContinuityHost := False\<rparr>)
        (exampleHost\<lparr>isContinuityHost := False\<rparr>)) = [] \<and>
   localProgress
     (saveProgress (exampleHost\<lparr>isContinuityHost := False\<rparr>)
        (exampleHost\<lparr>isContinuityHost := False\<rparr>))
     = Some \<lparr>current_question = 1, correct_answers_count = 4, wrong_answers_count = 3,
             study_time = 0, progress_reoccurrences = exampleReoccurrences\<rparr> \<and>
   serverPosts (saveProgress exampleHost exampleHost)
     = [\<lparr>current_question = 1, correct_answers_count = 4, wrong_answers_count = 3,
         study_time = 0, progress_reoccurrences = exampleReoccurrences\<rparr>] \<and>
   saveProgress (exampleHost\<lparr>isQuizFinished := True\<rparr>) exampleHost = exampleHost"
proof -
  let ?c = "exampleHost\<lparr>isContinuityHost := False\<rparr>"
  have h: "\<not> isContinuityHost ?c" "peerConnections ?c \<noteq> []"
    "currentQuestion ?c = Some questionOne" "\<not> isQuizFinished ?c"
    by (simp_all add: example_defs)
  have v: "serverPosts exampleHost = []" "question_id questionOne = 1"
    "correctAnswersCount exampleHost = 4" "wrongAnswersCount exampleHost = 3"
    "studyTime exampleHost = 0" "reoccurrences exampleHost = exampleReoccurrences"
    by (simp_all add: example_defs)
  have host: "serverPosts (saveProgress exampleHost exampleHost)
     = [\<lparr>current_question = 1, correct_answers_count = 4, wrong_answers_count = 3,
         study_time = 0, progress_reoccurrences = exampleReoccurrences\<rparr>]"
    by (simp add: saveProgress_def Let_def example_defs)
  have fin: "isQuizFinished (exampleHost\<lparr>isQuizFinished := True\<rparr>)" by simp
  from saveProgress_server_gate [of ?c ?c] h
  have "serverPosts (saveProgress ?c ?c) = serverPosts ?c \<and>
        saveProgress ?c ?c =
           ?c\<lparr>localProgress :=
                Some \<lparr>current_question = question_id questionOne,
                      correct_answers_count = correctAnswersCount ?c,
                      wrong_answers_count = wrongAnswersCount ?c,
                      study_time = studyTime ?c,
                      progress_reoccurrences = reoccurrences ?c\<rparr>\<rparr>"
    by blast
  then have "serverPosts (saveProgress ?c ?c) = [] \<and>
     localProgress (saveProgress ?c ?c)
       = Some \<lparr>current_question = 1, correct_answers_count = 4, wrong_answers_count = 3,
             study_time = 0, progress_reoccurrences = exampleReoccurrences\<rparr>"
    by (simp add: v)
  moreover from saveProgress_server_gate [of "exampleHost\<lparr>isQuizFinished := True\<rparr>" exampleHost] fin
  have "saveProgress (exampleHost\<lparr>isQuizFinished := True\<rparr>) exampleHost = exampleHost"
    by blast
  ultimately show ?thesis using h host by simp
qed

subsection \<open>C2: the two-message sync of a new connection\<close>

lemma handlePeerConnectionAsHost_open_sent:
  assumes "currentQuestionRef h = Some q" "conn_open conn"
  shows "handlePeerConnectionAsHost_open cl conn h =
           h\<lparr>sent := sent h @
                 [(conn_ref conn,
                   InitialSync (startTimeRef h) (correctAnswersCountRef h)
                     (wrongAnswersCountRef h) (reoccurrencesRef h)),
                  (conn_ref conn, QuestionUpdate q (selectedAnswers cl))]\<rparr>"
  using assms
  by (simp add: handlePeerConnectionAsHost_open_def initialSyncToPeer_def sendToPeer_def)

text \<open>
  C2, as the code behaves. When a connection opens on a host that holds a current
  question, the host sends on it an \<open>initial_sync\<close> message with its start time, its two
  counters and its reoccurrence list, read from the refs, and right after it a
  \<open>question_update\<close> message with the current question, and nothing else. A client in any
  state that handles these two messages in this order then holds that start time, those
  counters, that list and that question as its current one (those of the host's state
  where the refs hold what the state holds). The selection in the second message, and so
  the selection the client holds, is not the host's current one: it is the selection of
  the closure of the \<open>open\<close> callback, which is empty in the render of the mount effect.
\<close>

theorem initial_sync_selection_from_closure:
  assumes cur: "currentQuestionRef h = Some q" and opened: "conn_open conn"
  shows "\<exists>m1 m2 c1 c2.
     sent (handlePeerConnectionAsHost_open cl conn h)
       = sent h @ [(conn_ref conn, m1), (conn_ref conn, m2)] \<and>
     m1 = InitialSync (startTimeRef h) (correctAnswersCountRef h) (wrongAnswersCountRef h)
            (reoccurrencesRef h) \<and>
     m2 = QuestionUpdate q (selectedAnswers cl) \<and>
     handlePeerDataAsClient ccl m1 c = Inr c1 \<and>
     handlePeerDataAsClient ccl m2 c1 = Inr c2 \<and>
     startTimeRef c2 = startTimeRef h \<and>
     correctAnswersCount c2 = correctAnswersCountRef h \<and>
     wrongAnswersCount c2 = wrongAnswersCountRef h \<and>
     reoccurrences c2 = reoccurrencesRef h \<and>
     currentQuestion c2 = Some q \<and>
     selectedAnswers c2 = selectedAnswers cl \<and>
     (refsSynced h \<longrightarrow>
        correctAnswersCount c2 = correctAnswersCount h \<and>
        wrongAnswersCount c2 = wrongAnswersCount h \<and>
        reoccurrences c2 = reoccurrences h \<and>
        currentQuestion c2 = currentQuestion h)"
  using cur
  by (simp add: handlePeerConnectionAsHost_open_sent [OF cur opened]
      handlePeerDataAsClient_def refsSynced_def)

text \<open>
  The host of the example has selected index 0 of the first question when its first
  connection opens. The \<open>question_update\<close> it sends carries the empty selection, and that
  is what the freshly mounted client then holds.
\<close>

theorem initial_sync_selection_from_closure_witness:
  "currentQuestionRef exampleHost = Some questionOne \<and> conn_open connA \<and>
   refsSynced exampleHost \<and>
   selectedAnswers exampleHost = [0] \<and>
   sent (handlePeerConnectionAsHost_open mountRender connA exampleHost)
     = [(1, InitialSync 1000 4 3 exampleReoccurrences), (1, QuestionUpdate questionOne [])] \<and>
   (\<exists>c1 c2.
      handlePeerDataAsClient mountRender (InitialSync 1000 4 3 exampleReoccurrences)
        (initialSession 2000) = Inr c1 \<and>
      handlePeerDataAsClient mountRender (QuestionUpdate questionOne []) c1 = Inr c2 \<and>
      startTimeRef c2 = 1000 \<and> correctAnswersCount c2 = 4 \<and> wrongAnswersCount c2 = 3 \<and>
      reoccurrences c2 = exampleReoccurrences \<and> currentQuestion c2 = Some questionOne \<and>
      selectedAnswers c2 = [])"
proof -
  have h1: "currentQuestionRef exampleHost = Some questionOne" by (simp add: example_defs)
  have h2: "conn_open connA" by (simp add: connA_def)
  have h3: "refsSynced exampleHost" by (simp add: refsSynced_def example_defs)
  have v: "sent exampleHost = []" "conn_ref connA = 1" "startTimeRef exampleHost = 1000"
    "correctAnswersCountRef exampleHost = 4" "wrongAnswersCountRef exampleHost = 3"
    "reoccurrencesRef exampleHost = exampleReoccurrences" "selectedAnswers mountRender = []"
    and sel: "selectedAnswers exampleHost = [0]"
    by (simp_all add: example_defs)
  from initial_sync_selection_from_closure
    [OF h1 h2, of mountRender mountRender "initialSession 2000"] h1 h2 h3 sel
  show ?thesis unfolding v by auto
qed

subsection \<open>C3: a second initial sync\<close>

text \<open>
  C3, as the code has it. The client keeps no record of having been synced: every
  \<open>initial_sync\<close> message it handles, whatever the closure of the callback, replaces its
  start time, counters and reoccurrence list by those of the message. After two such messages the client holds the values of the
  second, and is in the state that the second message alone would have produced.
\<close>

theorem initial_sync_last_one_wins:
  "\<exists>s1 s2.
     handlePeerDataAsClient cl (InitialSync startTime1 correct1 wrong1 recs1) s = Inr s1 \<and>
     handlePeerDataAsClient cl (InitialSync startTime2 correct2 wrong2 recs2) s1 = Inr s2 \<and>
     startTimeRef s2 = startTime2 \<and>
     correctAnswersCount s2 = correct2 \<and>
     wrongAnswersCount s2 = wrong2 \<and>
     reoccurrences s2 = recs2 \<and>
     handlePeerDataAsClient cl (InitialSync startTime2 correct2 wrong2 recs2) s = Inr s2"
  by (simp add: handlePeerDataAsClient_def)

theorem initial_sync_last_one_wins_witness:
  "\<exists>s2. handlePeerDataAsClient mountRender (InitialSync 5000 9 8 []) syncedOnce = Inr s2 \<and>
         startTimeRef s2 = 5000 \<and> correctAnswersCount s2 = 9 \<and> wrongAnswersCount s2 = 8 \<and>
         reoccurrences s2 = []"
proof -
  have first: "handlePeerDataAsClient mountRender (InitialSync 1000 4 3 exampleReoccurrences)
                 (initialSession 2000) = Inr syncedOnce"
    by (simp add: handlePeerDataAsClient_def syncedOnce_def initialSession_def)
  from initial_sync_last_one_wins
    [of mountRender 1000 4 3 exampleReoccurrences "initialSession 2000" 5000 9 8 "[]"] first
  show ?thesis by auto
qed

text \<open>
  C3 as stated fails: a client that has applied the \<open>initial_sync\<close> of the host of the
  example applies a second one as well, and its start time, counters and reoccurrence list
  all change.
\<close>

theorem second_initial_sync_counterexample:
  "handlePeerDataAsClient mountRender (InitialSync 1000 4 3 exampleReoccurrences) (initialSession 2000)
     = Inr syncedOnce \<and>
   handlePeerDataAsClient mountRender (InitialSync 5000 9 8 []) syncedOnce = Inr syncedTwice \<and>
   startTimeRef syncedOnce = 1000 \<and> startTimeRef syncedTwice = 5000 \<and>
   correctAnswersCount syncedOnce = 4 \<and> correctAnswersCount syncedTwice = 9 \<and>
   wrongAnswersCount syncedOnce = 3 \<and> wrongAnswersCount syncedTwice = 8 \<and>
   reoccurrences syncedOnce = exampleReoccurrences \<and> reoccurrences syncedTwice = []"
  by (simp add: handlePeerDataAsClient_def syncedOnce_def syncedTwice_def initialSession_def)

subsection \<open>C4: the host relays, the client does not\<close>

lemma handlePeerDataAsHost_relay:
  assumes "data = QuestionUpdate q sel \<or> data = AnswerChecked"
  shows "sent (handlePeerDataAsHost cl A data s) =
           sent s @ map (\<lambda>c. (conn_ref c, data))
                      (filter (\<lambda>c. conn_ref c \<noteq> conn_ref A \<and> conn_open c) (peerConnections cl))"
proof -
  have check: "sent (checkAnswer cl True s) = sent s"
    by (simp add: checkAnswer_def Let_def split: option.split)
  from assms show ?thesis
    by (auto simp: handlePeerDataAsHost_def sendToAllPeersExcept_eq check)
qed

text \<open>
  C4, as the code behaves. A host that receives a \<open>question_update\<close> or an
  \<open>answer_checked\<close> message on connection \<open>A\<close> sends exactly that message, once for each
  entry that is open and is not \<open>A\<close> of the connection list of the closure of its data
  callback, and sends nothing else. That list is not the host's current one: in the render
  of the mount effect it is empty, and then the host relays to nobody, whatever
  connections it has. A client that handles such a message sends nothing, and whatever
  message a client handles, it never sends that message on.
\<close>

theorem host_relay_reads_closure:
  assumes relayed: "data = QuestionUpdate q sel \<or> data = AnswerChecked"
  shows "sent (handlePeerDataAsHost cl A data s) =
           sent s @ map (\<lambda>c. (conn_ref c, data))
                      (filter (\<lambda>c. conn_ref c \<noteq> conn_ref A \<and> conn_open c) (peerConnections cl)) \<and>
         (peerConnections cl = [] \<longrightarrow> sent (handlePeerDataAsHost cl A data s) = sent s) \<and>
         (\<forall>x \<in> set (drop (length (sent s)) (sent (handlePeerDataAsHost cl A data s))).
            fst x \<noteq> conn_ref A \<and> snd x = data) \<and>
         (\<exists>c'. handlePeerDataAsClient ccl data c = Inr c' \<and> sent c' = sent c) \<and>
         (\<forall>m c'. handlePeerDataAsClient ccl m c = Inr c' \<longrightarrow>
            (\<forall>x \<in> set (drop (length (sent c)) (sent c')). snd x \<noteq> m))"
proof -
  have check: "sent (checkAnswer ccl True c) = sent c"
    by (simp add: checkAnswer_def Let_def split: option.split)
  have client: "\<exists>c'. handlePeerDataAsClient ccl data c = Inr c' \<and> sent c' = sent c"
    using relayed by (auto simp: handlePeerDataAsClient_def check)
  have norelay: "\<forall>x \<in> set (drop (length (sent c)) (sent c')). snd x \<noteq> m"
    if "handlePeerDataAsClient ccl m c = Inr c'" for m c'
    using that
    by (cases m) (auto simp: handlePeerDataAsClient_def check sendToPeer_def
        split: list.splits if_splits)
  from handlePeerDataAsHost_relay [OF relayed, of cl A s] client norelay
  show ?thesis by auto
qed

text \<open>
  The host of the example has the open connections A, B and C. A message from A is
  relayed to nobody by the data callback of the mount effect; a handler of the latest
  render would have sent it to B and C.
\<close>

theorem host_relay_reads_closure_witness:
  "peerConnections exampleHost = [connA, connB, connC, connD] \<and>
   conn_open connB \<and> conn_open connC \<and> \<not> conn_open connD \<and>
   peerConnections mountRender = [] \<and>
   sent (handlePeerDataAsHost mountRender connA (QuestionUpdate questionTwo [2]) exampleHost) = [] \<and>
   sent (handlePeerDataAsHost mountRender connA AnswerChecked exampleHost) = [] \<and>
   sent (handlePeerDataAsHost exampleHost connA (QuestionUpdate questionTwo [2]) exampleHost)
     = [(2, QuestionUpdate questionTwo [2]), (3, QuestionUpdate questionTwo [2])]"
proof -
  have v: "sent exampleHost = []" "peerConnections exampleHost = [connA, connB, connC, connD]"
    "peerConnections mountRender = []"
    by (simp_all add: example_defs)
  have f: "filter (\<lambda>c. conn_ref c \<noteq> conn_ref connA \<and> conn_open c) [connA, connB, connC, connD]
             = [connB, connC]"
    "conn_ref connB = 2" "conn_ref connC = 3"
    "conn_open connB" "conn_open connC" "\<not> conn_open connD"
    by (simp_all add: connA_def connB_def connC_def connD_def)
  have q: "QuestionUpdate questionTwo [2] = QuestionUpdate questionTwo [2] \<or>
           QuestionUpdate questionTwo [2] = AnswerChecked"
    and a: "AnswerChecked = QuestionUpdate questionTwo [2] \<or> AnswerChecked = AnswerChecked"
    by simp_all
  have "sent (handlePeerDataAsHost mountRender connA (QuestionUpdate questionTwo [2]) exampleHost) = []"
    using host_relay_reads_closure
      [OF q, where cl = mountRender and A = connA and s = exampleHost, THEN conjunct1]
    by (simp only: v filter.simps list.map append_Nil)
  moreover
  have "sent (handlePeerDataAsHost mountRender connA AnswerChecked exampleHost) = []"
    using host_relay_reads_closure
      [OF a, where cl = mountRender and A = connA and s = exampleHost, THEN conjunct1]
    by (simp only: v filter.simps list.map append_Nil)
  moreover
  have "sent (handlePeerDataAsHost exampleHost connA (QuestionUpdate questionTwo [2]) exampleHost)
          = [(2, QuestionUpdate questionTwo [2]), (3, QuestionUpdate questionTwo [2])]"
    using host_relay_reads_closure
      [OF q, where cl = exampleHost and A = connA and s = exampleHost, THEN conjunct1]
    by (simp only: v f list.map append_Nil)
  ultimately show ?thesis using v f by simp
qed

subsection \<open>C7: a client that loses its host\<close>

lemma initiateContinuity_guard: "peerRef s \<noteq> None \<Longrightarrow> initiateContinuity env s = s"
  by (simp add: initiateContinuity_def)

text \<open>
  C7, as the code behaves. When a connection of a client with a live peer object closes
  and the reconnection fails, \<open>handlePeerClose\<close> has made exactly one reconnection attempt,
  to the remote identifier of the closed connection, and it calls \<open>initiateContinuity\<close>;
  but that call returns at its first guard, because \<open>peerRef.current\<close> still holds the
  client's peer object. Whatever the transport would report, no new \<open>Peer\<close> is created
  and the device stays a client. The device is a client in the closure of the callback as
  it is in its current state.
\<close>

theorem failed_reconnect_skips_negotiation:
  assumes client: "\<not> isContinuityHost cl" "\<not> isContinuityHost s"
    and live: "peerRef s = Some thePeer" "\<not> destroyed thePeer"
  shows "handlePeerClose cl conn ConnFailed env s =
           s\<lparr>peerConnections :=
                filter (\<lambda>c. conn_open c \<and> peer c \<noteq> peer conn) (peerConnections s),
              connectAttempts := connectAttempts s @ [peer conn]\<rparr> \<and>
         peersCreated (handlePeerClose cl conn ConnFailed env s) = peersCreated s \<and>
         \<not> isContinuityHost (handlePeerClose cl conn ConnFailed env s)"
  using assms
  by (simp add: handlePeerClose_def connectToPeer_def Let_def initiateContinuity_guard)

text \<open>
  The client of the example loses its host \<open>7_42\<close>, whose identifier is free again.
  The reconnection is attempted once and fails; no registration follows. Had
  \<open>peerRef.current\<close> been cleared, the same call would have registered \<open>7_42\<close> and made
  the device the host.
\<close>

theorem failed_reconnect_skips_negotiation_witness:
  "\<not> isContinuityHost mountRender \<and> \<not> isContinuityHost exampleClient \<and>
   peerRef exampleClient = Some \<lparr>peer_id = ''random-id'', destroyed = False\<rparr> \<and>
   connectAttempts (handlePeerClose mountRender hostConn ConnFailed hostGone exampleClient)
     = [''7_42''] \<and>
   peerConnections (handlePeerClose mountRender hostConn ConnFailed hostGone exampleClient) = [] \<and>
   peersCreated (handlePeerClose mountRender hostConn ConnFailed hostGone exampleClient) = [] \<and>
   \<not> isContinuityHost (handlePeerClose mountRender hostConn ConnFailed hostGone exampleClient) \<and>
   handlePeerClose exampleClient hostConn ConnFailed hostGone exampleClient
     = handlePeerClose mountRender hostConn ConnFailed hostGone exampleClient \<and>
   peersCreated (initiateContinuity hostGone (exampleClient\<lparr>peerRef := None\<rparr>)) = [Some ''7_42''] \<and>
   isContinuityHost (initiateContinuity hostGone (exampleClient\<lparr>peerRef := None\<rparr>))"
proof -
  have h0: "\<not> isContinuityHost mountRender"
    and h1: "\<not> isContinuityHost exampleClient"
    and h2: "peerRef exampleClient = Some \<lparr>peer_id = ''random-id'', destroyed = False\<rparr>"
    and h3: "\<not> destroyed \<lparr>peer_id = ''random-id'', destroyed = False\<rparr>"
    by (simp_all add: hostConn_def exampleClient_def hostGone_def example_defs)
  have v: "connectAttempts exampleClient = []" "peerConnections exampleClient = [hostConn]"
    "peersCreated exampleClient = []" "peer hostConn = ''7_42''" "conn_open hostConn = False"
    by (simp_all add: hostConn_def exampleClient_def hostGone_def example_defs)
  have would: "peersCreated (initiateContinuity hostGone (exampleClient\<lparr>peerRef := None\<rparr>)) = [Some ''7_42'']"
    "isContinuityHost (initiateContinuity hostGone (exampleClient\<lparr>peerRef := None\<rparr>))"
    by (simp_all add: initiateContinuity_def Let_def hostConn_def exampleClient_def hostGone_def
        example_defs)
  from failed_reconnect_skips_negotiation [OF h0 h1 h2 h3, of hostConn hostGone]
    failed_reconnect_skips_negotiation [OF h1 h1 h2 h3, of hostConn hostGone]
    h0 h1 h2 would
  show ?thesis by (simp add: v)
qed

subsection \<open>C8: the ping interval\<close>

lemma fold_pingPeers:
  "fold (\<lambda>conn st.
           if conn_open conn then
             (let st1 = sendToPeer conn Ping st
              in st1\<lparr>armedTimeouts := armedTimeouts st1 @ [conn_ref conn]\<rparr>)
           else st) cs st =
     st\<lparr>sent := sent st @ map (\<lambda>c. (conn_ref c, Ping)) (filter conn_open cs),
        armedTimeouts := armedTimeouts st @ map conn_ref (filter conn_open cs)\<rparr>"
  by (induction cs arbitrary: st) (simp_all add: sendToPeer_def Let_def)

text \<open>
  A timeout that fires on a device holding a peer object, with the reconnection (if one
  is attempted) failing, leaves in the connection list the open connections to other
  devices: the connection is removed.
\<close>

lemma pingPeers_timeout_removes:
  assumes "peerRef s \<noteq> None"
  shows "peerConnections (pingPeers_timeout cl conn ConnFailed env s) =
           filter (\<lambda>c. conn_open c \<and> peer c \<noteq> peer conn) (peerConnections s)"
  using assms
  by (auto simp: pingPeers_timeout_def handlePeerClose_def connectToPeer_def Let_def
      initiateContinuity_guard)

text \<open>
  C8, as the code behaves. One tick of the interval sends a ping to, and arms a timeout
  for, every open connection of the list that the closure of \<open>pingPeers\<close> holds, in the
  order of the list, and does nothing else. That list is not the device's current one: the
  interval is set up by the mount effect, and in the render of that effect the list is
  empty. Then a tick sends nothing and arms nothing, whatever connections the device has.
\<close>

theorem pingPeers_reads_closure:
  "pingPeers cl s =
     s\<lparr>sent := sent s @ map (\<lambda>c. (conn_ref c, Ping)) (filter conn_open (peerConnections cl)),
       armedTimeouts :=
         armedTimeouts s @ map conn_ref (filter conn_open (peerConnections cl))\<rparr> \<and>
   (peerConnections cl = [] \<longrightarrow> pingPeers cl s = s)"
  by (simp add: pingPeers_def fold_pingPeers)

text \<open>
  The host of the example has three open connections. A tick of the interval of the
  mount effect leaves its session as it is: no ping, no timeout. A tick run by the latest
  render would have pinged the three and armed three timeouts.
\<close>

theorem pingPeers_reads_closure_witness:
  "peerConnections mountRender = [] \<and>
   filter conn_open (peerConnections exampleHost) = [connA, connB, connC] \<and>
   pingPeers mountRender exampleHost = exampleHost \<and>
   sent (pingPeers mountRender exampleHost) = [] \<and>
   armedTimeouts (pingPeers mountRender exampleHost) = [] \<and>
   sent (pingPeers exampleHost exampleHost) = [(1, Ping), (2, Ping), (3, Ping)] \<and>
   armedTimeouts (pingPeers exampleHost exampleHost) = [1, 2, 3]"
proof -
  have e: "peerConnections mountRender = []" by (simp add: example_defs)
  have v: "filter conn_open (peerConnections exampleHost) = [connA, connB, connC]"
    "sent exampleHost = []" "armedTimeouts exampleHost = []"
    "conn_ref connA = 1" "conn_ref connB = 2" "conn_ref connC = 3"
    by (simp_all add: example_defs)
  from pingPeers_reads_closure [of mountRender exampleHost] e
  have same: "pingPeers mountRender exampleHost = exampleHost" by blast
  from pingPeers_reads_closure [of exampleHost exampleHost, THEN conjunct1]
  have latest: "sent (pingPeers exampleHost exampleHost) = [(1, Ping), (2, Ping), (3, Ping)]"
    "armedTimeouts (pingPeers exampleHost exampleHost) = [1, 2, 3]"
    by (simp_all add: v)
  from same latest e v show ?thesis by simp
qed

end
